theory Spec2Isabelle
  imports
    Complex_Main
    "HOL-Library.Char_ord"
    "HOL-Library.List_Lexorder"
    "HOL-Library.Product_Lexorder"
    "HOL-Library.Monad_Syntax"
begin

section \<open>Data model: typed columns, data frames, errors\<close>

text \<open>
  A pandas DataFrame read from a CSV file is a sequence of named columns of one length.
  Each column is typed as a whole: a numeric column (int64 or float64, a missing value
  being NaN), a text column (object dtype, a missing value being NaN as well), or the
  column of counts that \<open>size()\<close> produces (int64, exact, never missing).

  The type \<open>'n\<close> stands for the numbers of the machine other than NaN: the int64 and
  the float64 values, the infinities among them, compared as Python compares them (so
  \<open>0.0\<close> and \<open>-0.0\<close> are one value). NaN, computed or read, is \<open>None\<close>.
  Text is ordered lexicographically by character code, as Python orders \<open>str\<close>.
\<close>

datatype 'n column =
  NumCol "'n option list" | StrCol "string option list" | CountCol "nat list"

type_synonym 'n dataframe = "(string \<times> 'n column) list"

text \<open>
  The arithmetic of the machine is not fixed here. A \<open>machine\<close> supplies the
  operations that the source applies to numbers: the product, the difference and the
  quotient of two numbers, each of which may be NaN (as \<open>inf - inf\<close> is); the number
  that an integer literal of the program denotes; and the sum of a list of numbers, taken in
  the order of the rows. Nothing is assumed of them: no exactness, no associativity, no
  absence of overflow. What is proved holds for every machine, so for IEEE double
  arithmetic with its rounding and for int64 arithmetic with its wrap-around.
\<close>

record 'n machine =
  m_mul :: "'n \<Rightarrow> 'n \<Rightarrow> 'n option"
  m_sub :: "'n \<Rightarrow> 'n \<Rightarrow> 'n option"
  m_div :: "'n \<Rightarrow> 'n \<Rightarrow> 'n option"
  m_lit :: "int \<Rightarrow> 'n"
  m_sum :: "'n list \<Rightarrow> 'n option"

text \<open>
  \<open>KeyError\<close> is what pandas raises for a column that is absent. \<open>IllTyped\<close>
  marks a column whose type is not the one its use requires: text with values in
  arithmetic (pandas raises TypeError when it combines text and a float), or a numeric
  column with values used as a grouping key (pandas would group by the numbers; that
  case is outside this model), or a column of counts used as either. A column without
  any value has no type to offend and is accepted either way.
\<close>

datatype error = KeyError string | IllTyped

definition bind_err :: "error + 'a \<Rightarrow> ('a \<Rightarrow> error + 'b) \<Rightarrow> error + 'b" where
  "bind_err r f = (case r of Inl e \<Rightarrow> Inl e | Inr x \<Rightarrow> f x)"

fun col_len :: "'n column \<Rightarrow> nat" where
  "col_len (NumCol xs) = length xs"
| "col_len (StrCol ss) = length ss"
| "col_len (CountCol ns) = length ns"

definition nrows :: "'n dataframe \<Rightarrow> nat" where
  "nrows df = (case df of [] \<Rightarrow> 0 | (name, c) # rest \<Rightarrow> col_len c)"

text \<open>Column names are unique and all columns have the length of the frame.\<close>

definition wf_df :: "'n dataframe \<Rightarrow> bool" where
  "wf_df df = (distinct (map fst df) \<and> list_all (\<lambda>(name, c). col_len c = nrows df) df)"

text \<open>\<open>df.empty\<close>: no columns or no rows.\<close>

definition df_empty :: "'n dataframe \<Rightarrow> bool" where
  "df_empty df = (df = [] \<or> nrows df = 0)"

text \<open>\<open>df[name]\<close>.\<close>

definition getitem :: "'n dataframe \<Rightarrow> string \<Rightarrow> error + 'n column" where
  "getitem df name = (case map_of df name of None \<Rightarrow> Inl (KeyError name) | Some c \<Rightarrow> Inr c)"

text \<open>
  \<open>df[name] = c\<close>: an existing column of that name is overwritten where it stands,
  a new one is appended after the last column.
\<close>

fun setitem :: "'n dataframe \<Rightarrow> string \<Rightarrow> 'n column \<Rightarrow> 'n dataframe" where
  "setitem [] name c = [(name, c)]"
| "setitem ((n, old) # rest) name c =
     (if n = name then (name, c) # rest else (n, old) # setitem rest name c)"

fun as_numeric :: "'n column \<Rightarrow> error + 'n option list" where
  "as_numeric (NumCol xs) = Inr xs"
| "as_numeric (StrCol ss) =
     (if list_all (\<lambda>s. s = None) ss then Inr (map (\<lambda>s. None) ss) else Inl IllTyped)"
| "as_numeric (CountCol ns) = (if ns = [] then Inr [] else Inl IllTyped)"

fun as_keys :: "'n column \<Rightarrow> error + string option list" where
  "as_keys (StrCol ss) = Inr ss"
| "as_keys (NumCol xs) =
     (if list_all (\<lambda>x. x = None) xs then Inr (map (\<lambda>x. None) xs) else Inl IllTyped)"
| "as_keys (CountCol ns) = (if ns = [] then Inr [] else Inl IllTyped)"

section \<open>Element-wise arithmetic on columns\<close>

text \<open>
  NaN propagates: the result is missing where an operand is missing, and where the
  machine's operation yields NaN.
\<close>

fun lift2 :: "('n \<Rightarrow> 'n \<Rightarrow> 'n option) \<Rightarrow> 'n option \<Rightarrow> 'n option \<Rightarrow> 'n option" where
  "lift2 f (Some x) (Some y) = f x y"
| "lift2 f a b = None"

text \<open>\<open>a op b\<close> for two columns of one frame (same index, so row by row).\<close>

definition arith ::
  "('n \<Rightarrow> 'n \<Rightarrow> 'n option) \<Rightarrow> 'n column \<Rightarrow> 'n column \<Rightarrow> error + 'n column" where
  "arith f a b =
     bind_err (as_numeric a) (\<lambda>xs.
     bind_err (as_numeric b) (\<lambda>ys.
       Inr (NumCol (map (\<lambda>(x, y). lift2 f x y) (zip xs ys)))))"

text \<open>\<open>a op k\<close> and \<open>k op a\<close> for a column and a scalar.\<close>

definition arith_right ::
  "('n \<Rightarrow> 'n \<Rightarrow> 'n option) \<Rightarrow> 'n column \<Rightarrow> 'n \<Rightarrow> error + 'n column" where
  "arith_right f a k =
     bind_err (as_numeric a) (\<lambda>xs. Inr (NumCol (map (\<lambda>x. lift2 f x (Some k)) xs)))"

definition arith_left ::
  "('n \<Rightarrow> 'n \<Rightarrow> 'n option) \<Rightarrow> 'n \<Rightarrow> 'n column \<Rightarrow> error + 'n column" where
  "arith_left f k a =
     bind_err (as_numeric a) (\<lambda>xs. Inr (NumCol (map (\<lambda>x. lift2 f (Some k) x) xs)))"

section \<open>calculate_profit_by_order\<close>

text \<open>
  Lines 10 to 16 of orders_analytics.py, in Python's order of evaluation:
  \<^verbatim>\<open>revenue = df['List Price'] * df['Quantity'] * (1 - df['Discount Percent'] / 100)\<close>,
  \<^verbatim>\<open>total_cost = df['cost price'] * df['Quantity']\<close>,
  \<^verbatim>\<open>profit = revenue - total_cost\<close>.
\<close>

definition profit_series :: "'n machine \<Rightarrow> 'n dataframe \<Rightarrow> error + 'n column" where
  "profit_series m df =
     bind_err (getitem df ''List Price'') (\<lambda>list_price.
     bind_err (getitem df ''Quantity'') (\<lambda>quantity.
     bind_err (arith (m_mul m) list_price quantity) (\<lambda>gross.
     bind_err (getitem df ''Discount Percent'') (\<lambda>discount.
     bind_err (arith_right (m_div m) discount (m_lit m 100)) (\<lambda>fraction.
     bind_err (arith_left (m_sub m) (m_lit m 1) fraction) (\<lambda>factor.
     bind_err (arith (m_mul m) gross factor) (\<lambda>revenue.
     bind_err (getitem df ''cost price'') (\<lambda>cost_price.
     bind_err (getitem df ''Quantity'') (\<lambda>quantity'.
     bind_err (arith (m_mul m) cost_price quantity') (\<lambda>total_cost.
       arith (m_sub m) revenue total_cost))))))))))"

text \<open>
  The function receives a reference to the caller's frame. The heap maps every address
  to the frame stored there. Line 19, \<^verbatim>\<open>orders_df['Profit'] = profit\<close>, writes
  into the frame at that address, and line 21 returns the address it was given. An
  exception leaves the heap as it is at that moment; the pair returned holds the
  outcome and the heap after the call.
\<close>

type_synonym addr = nat

type_synonym 'n heap = "addr \<Rightarrow> 'n dataframe"

definition calculate_profit_by_order ::
  "'n machine \<Rightarrow> 'n heap \<Rightarrow> addr \<Rightarrow> (error + addr) \<times> 'n heap" where
  "calculate_profit_by_order m h orders_df =
     (case profit_series m (h orders_df) of
        Inl e \<Rightarrow> (Inl e, h)
      | Inr profit \<Rightarrow>
          (Inr orders_df, h(orders_df := setitem (h orders_df) ''Profit'' profit)))"

section \<open>Grouping\<close>

text \<open>
  \<open>groupby\<close> drops the rows whose key is missing (\<open>dropna=True\<close> is the default)
  and yields the groups in ascending order of their key (\<open>sort=True\<close>).
\<close>

definition present :: "'a option list \<Rightarrow> 'a list" where
  "present ks = concat (map (\<lambda>k. case k of None \<Rightarrow> [] | Some v \<Rightarrow> [v]) ks)"

definition group_keys :: "('k::linorder) option list \<Rightarrow> 'k list" where
  "group_keys ks = sort (remdups (present ks))"

text \<open>
  \<open>sum\<close> over a group skips NaN: it is the machine's sum of the values present in the
  rows of the group, in their order (for a group without any value, of no value).
\<close>

definition group_sum ::
  "'n machine \<Rightarrow> string option list \<Rightarrow> 'n option list \<Rightarrow> string \<Rightarrow> 'n option" where
  "group_sum m ks ps k =
     m_sum m (present (map snd (filter (\<lambda>(r, p). r = Some k) (zip ks ps))))"

text \<open>\<^verbatim>\<open>df.groupby(key)[value].sum()\<close>, as the list of its items.\<close>

definition groupby_sum ::
  "'n machine \<Rightarrow> string option list \<Rightarrow> 'n option list \<Rightarrow> (string \<times> 'n option) list" where
  "groupby_sum m ks ps = map (\<lambda>k. (k, group_sum m ks ps k)) (group_keys ks)"

text \<open>
  \<^verbatim>\<open>df.groupby([key1, key2]).size().reset_index(name=...)\<close>: one row per pair
  of keys that occurs, with the number of rows that have it; a row with either key
  missing belongs to no group.
\<close>

definition key_pairs :: "'a option list \<Rightarrow> 'b option list \<Rightarrow> ('a \<times> 'b) list" where
  "key_pairs ks1 ks2 =
     concat (map (\<lambda>(a, b). case a of None \<Rightarrow> []
                           | Some x \<Rightarrow> (case b of None \<Rightarrow> [] | Some y \<Rightarrow> [(x, y)]))
                 (zip ks1 ks2))"

definition groupby_size ::
  "string option list \<Rightarrow> string option list \<Rightarrow> (string \<times> string \<times> nat) list" where
  "groupby_size ks1 ks2 =
     (let pairs = key_pairs ks1 ks2
      in map (\<lambda>(a, b). (a, b, count_list pairs (a, b))) (sort (remdups pairs)))"

text \<open>
  \<open>Series.max()\<close> skips NaN, so it is applied to the values present; it is NaN (here
  \<open>None\<close>) for a series without values.
\<close>

fun series_max :: "('a::linorder) list \<Rightarrow> 'a option" where
  "series_max [] = None"
| "series_max (x # xs) = Some (fold max xs x)"

section \<open>Reports\<close>

text \<open>\<open>pd.DataFrame(rows, columns=[...])\<close> for the three shapes of report.\<close>

definition region_report :: "(string \<times> 'n) list \<Rightarrow> 'n dataframe" where
  "region_report rows =
     [(''Region'', StrCol (map (\<lambda>(region, profit). Some region) rows)),
      (''Total_Profit'', NumCol (map (\<lambda>(region, profit). Some profit) rows))]"

definition count_report ::
  "string \<Rightarrow> string \<Rightarrow> string \<Rightarrow> (string \<times> string \<times> nat) list \<Rightarrow> 'n dataframe" where
  "count_report name1 name2 name3 rows =
     [(name1, StrCol (map (\<lambda>(a, b, n). Some a) rows)),
      (name2, StrCol (map (\<lambda>(a, b, n). Some b) rows)),
      (name3, CountCol (map (\<lambda>(a, b, n). n) rows))]"

abbreviation ship_report :: "(string \<times> string \<times> nat) list \<Rightarrow> 'n dataframe" where
  "ship_report \<equiv> count_report ''Category'' ''Ship Mode'' ''Count''"

abbreviation category_report :: "(string \<times> string \<times> nat) list \<Rightarrow> 'n dataframe" where
  "category_report \<equiv> count_report ''Category'' ''Sub Category'' ''order_count''"

section \<open>calculate_most_profitable_region\<close>

text \<open>
  Line 29 groups by region and sums the profit, line 32 takes the maximum of the sums
  that are not NaN, line 35 keeps the items whose sum equals it (a comparison with NaN
  is false, so an item whose sum is NaN is never kept, and nothing is kept when there
  is no maximum), line 38 sorts them by region name.
\<close>

definition most_profitable_rows ::
  "('n::linorder) machine \<Rightarrow> string option list \<Rightarrow> 'n option list \<Rightarrow> (string \<times> 'n) list" where
  "most_profitable_rows m regions profits =
     (let region_profits = groupby_sum m regions profits;
          max_profit = series_max (present (map snd region_profits));
          most_profitable_regions =
            concat (map (\<lambda>(region, profit).
                           case profit of None \<Rightarrow> []
                           | Some v \<Rightarrow> if Some v = max_profit then [(region, v)] else [])
                        region_profits)
      in sort_key fst most_profitable_regions)"

definition calculate_most_profitable_region ::
  "('n::linorder) machine \<Rightarrow> 'n dataframe \<Rightarrow> error + 'n dataframe" where
  "calculate_most_profitable_region m orders_with_profit =
     bind_err (getitem orders_with_profit ''Region'') (\<lambda>region_col.
     bind_err (as_keys region_col) (\<lambda>regions.
     bind_err (getitem orders_with_profit ''Profit'') (\<lambda>profit_col.
     bind_err (as_numeric profit_col) (\<lambda>profits.
       Inr (region_report (most_profitable_rows m regions profits))))))"

section \<open>find_most_common_ship_method\<close>

text \<open>
  Lines 58 to 61: for each category of the counted pairs, in ascending order, the rows
  of that category whose count is the largest of the category.
\<close>

definition most_common_of ::
  "(string \<times> string \<times> nat) list \<Rightarrow> string \<Rightarrow> (string \<times> string \<times> nat) list" where
  "most_common_of ship_method_counts category =
     (let group = filter (\<lambda>(c, s, n). c = category) ship_method_counts;
          max_count = series_max (map (\<lambda>(c, s, n). n) group)
      in filter (\<lambda>(c, s, n). Some n = max_count) group)"

definition most_common_rows ::
  "string option list \<Rightarrow> string option list \<Rightarrow> (string \<times> string \<times> nat) list" where
  "most_common_rows categories modes =
     (let ship_method_counts = groupby_size categories modes;
          result_rows = map (most_common_of ship_method_counts)
                            (sort (remdups (map fst ship_method_counts)))
      in if result_rows = [] then []
         else sort_key (\<lambda>(c, s, n). (c, s)) (concat result_rows))"

definition find_most_common_ship_method :: "'n dataframe \<Rightarrow> error + 'n dataframe" where
  "find_most_common_ship_method orders_df =
     (if df_empty orders_df then Inr (ship_report [])
      else
        bind_err (getitem orders_df ''Category'') (\<lambda>category_col.
        bind_err (getitem orders_df ''Ship Mode'') (\<lambda>mode_col.
        bind_err (as_keys category_col) (\<lambda>categories.
        bind_err (as_keys mode_col) (\<lambda>modes.
          Inr (ship_report (most_common_rows categories modes)))))))"

section \<open>find_number_of_order_per_category\<close>

definition find_number_of_order_per_category :: "'n dataframe \<Rightarrow> error + 'n dataframe" where
  "find_number_of_order_per_category orders_df =
     bind_err (getitem orders_df ''Category'') (\<lambda>category_col.
     bind_err (getitem orders_df ''Sub Category'') (\<lambda>sub_col.
     bind_err (as_keys category_col) (\<lambda>categories.
     bind_err (as_keys sub_col) (\<lambda>subs.
       Inr (category_report (groupby_size categories subs))))))"

section \<open>generate_analytics_reports\<close>

text \<open>
  The dictionary of reports. \<open>orders_with_profit\<close> is the reference that
  \<open>calculate_profit_by_order\<close> returned; the three others are frames built by the
  aggregators. Lines 94 and 97 pass \<open>orders_df\<close>, which is read from the heap as it
  is after line 86.
\<close>

record 'n reports =
  orders_with_profit :: addr
  most_profitable_region :: "'n dataframe"
  most_common_ship_method :: "'n dataframe"
  orders_by_category :: "'n dataframe"

definition generate_analytics_reports ::
  "('n::linorder) machine \<Rightarrow> 'n heap \<Rightarrow> addr \<Rightarrow> (error + 'n reports) \<times> 'n heap" where
  "generate_analytics_reports m h orders_df =
     (case calculate_profit_by_order m h orders_df of
        (Inl e, h') \<Rightarrow> (Inl e, h')
      | (Inr with_profit, h') \<Rightarrow>
          (bind_err (calculate_most_profitable_region m (h' with_profit)) (\<lambda>region_profits.
           bind_err (find_most_common_ship_method (h' orders_df)) (\<lambda>ship.
           bind_err (find_number_of_order_per_category (h' orders_df)) (\<lambda>cats.
             Inr \<lparr>orders_with_profit = with_profit,
                  most_profitable_region = region_profits,
                  most_common_ship_method = ship,
                  orders_by_category = cats\<rparr>))), h'))"

section \<open>Notions used to state the properties\<close>

text \<open>The number in row \<open>i\<close> of a numeric column, if the column and the value exist.\<close>

definition num_at :: "'n dataframe \<Rightarrow> string \<Rightarrow> nat \<Rightarrow> 'n option" where
  "num_at df name i =
     (case getitem df name of
        Inr (NumCol xs) \<Rightarrow> (if i < length xs then xs ! i else None)
      | _ \<Rightarrow> None)"

text \<open>
  The profit of one order as the machine computes it from the four fields of the
  order: \<open>list_price * quantity * (1 - discount_percent / 100) - cost_price * quantity\<close>,
  each operation being the machine's, in the order in which the expression applies
  them. It is NaN when a field is missing or an operation yields NaN.
\<close>

definition row_profit ::
  "'n machine \<Rightarrow> 'n option \<Rightarrow> 'n option \<Rightarrow> 'n option \<Rightarrow> 'n option \<Rightarrow> 'n option" where
  "row_profit m list_price quantity discount_percent cost_price =
     do {
       lp \<leftarrow> list_price;
       q \<leftarrow> quantity;
       d \<leftarrow> discount_percent;
       cp \<leftarrow> cost_price;
       gross \<leftarrow> m_mul m lp q;
       fraction \<leftarrow> m_div m d (m_lit m 100);
       factor \<leftarrow> m_sub m (m_lit m 1) fraction;
       revenue \<leftarrow> m_mul m gross factor;
       total_cost \<leftarrow> m_mul m cp q;
       m_sub m revenue total_cost
     }"

text \<open>The profits present in the rows of a region, in the order of the rows.\<close>

definition region_values :: "string option list \<Rightarrow> 'n option list \<Rightarrow> string \<Rightarrow> 'n list" where
  "region_values regions profits r =
     concat (map (\<lambda>(k, p). if k = Some r then (case p of None \<Rightarrow> [] | Some v \<Rightarrow> [v]) else [])
                 (zip regions profits))"

text \<open>
  Two machines for the examples. \<open>exact_machine\<close> computes over the reals without
  rounding; on numbers that IEEE double arithmetic combines without rounding, such as
  the small integers of the examples below, it computes what that arithmetic computes.
  \<open>floor_machine\<close> rounds every result down to an integer, as an arithmetic with a
  very coarse rounding.
\<close>

definition exact_machine :: "real machine" where
  "exact_machine =
     \<lparr>m_mul = (\<lambda>a b. Some (a * b)), m_sub = (\<lambda>a b. Some (a - b)),
      m_div = (\<lambda>a b. Some (a / b)), m_lit = real_of_int,
      m_sum = (\<lambda>vs. Some (sum_list vs))\<rparr>"

definition floor_machine :: "real machine" where
  "floor_machine =
     \<lparr>m_mul = (\<lambda>a b. Some (real_of_int \<lfloor>a * b\<rfloor>)), m_sub = (\<lambda>a b. Some (real_of_int \<lfloor>a - b\<rfloor>)),
      m_div = (\<lambda>a b. Some (real_of_int \<lfloor>a / b\<rfloor>)), m_lit = real_of_int,
      m_sum = (\<lambda>vs. Some (real_of_int \<lfloor>sum_list vs\<rfloor>))\<rparr>"

text \<open>
  The four orders of the repository's test of a zero discount (the columns the
  analytics read), and the same orders with the discounts of the test suite's setup.
\<close>

definition example_orders :: "real dataframe" where
  "example_orders =
     [(''Ship Mode'', StrCol [Some ''Standard Class'', Some ''First Class'',
                              Some ''Standard Class'', Some ''Same Day'']),
      (''Region'', StrCol [Some ''West'', Some ''West'', Some ''Central'', Some ''Central'']),
      (''Category'', StrCol [Some ''Furniture'', Some ''Furniture'',
                             Some ''Office Supplies'', Some ''Furniture'']),
      (''Sub Category'', StrCol [Some ''Bookcases'', Some ''Chairs'', Some ''Labels'',
                                 Some ''Tables'']),
      (''cost price'', NumCol [Some 240, Some 600, Some 10, Some 780]),
      (''List Price'', NumCol [Some 260, Some 730, Some 10, Some 960]),
      (''Quantity'', NumCol [Some 2, Some 3, Some 2, Some 5]),
      (''Discount Percent'', NumCol [Some 0, Some 0, Some 0, Some 0])]"


text \<open>Whether the frame has a column of that name.\<close>

definition has_column :: "'n dataframe \<Rightarrow> string \<Rightarrow> bool" where
  "has_column df name = (name \<in> set (map fst df))"

text \<open>One order in a file that already carries a Profit column.\<close>

definition priced_orders :: "real dataframe" where
  "priced_orders =
     [(''Profit'', NumCol [Some 0]),
      (''List Price'', NumCol [Some 10]),
      (''Quantity'', NumCol [Some 1]),
      (''Discount Percent'', NumCol [Some 0]),
      (''cost price'', NumCol [Some 4])]"

text \<open>The bundle of reports for the four example orders.\<close>

definition example_reports :: "real reports" where
  "example_reports =
     \<lparr>orders_with_profit = 0,
      most_profitable_region = region_report [(''Central'', 900)],
      most_common_ship_method =
        ship_report [(''Furniture'', ''First Class'', 1), (''Furniture'', ''Same Day'', 1),
                     (''Furniture'', ''Standard Class'', 1),
                     (''Office Supplies'', ''Standard Class'', 1)],
      orders_by_category =
        category_report [(''Furniture'', ''Bookcases'', 1), (''Furniture'', ''Chairs'', 1),
                         (''Furniture'', ''Tables'', 1), (''Office Supplies'', ''Labels'', 1)]\<rparr>"

text \<open>
  The rows of a frame, seen through two of its columns, are the pairs of \<open>zip\<close>.
  \<open>pair_count\<close> is the number of rows that carry a given pair of keys,
  \<open>observed_pairs\<close> the pairs that some row carries, \<open>keyed_rows\<close> the number
  of rows in which both keys are present.
\<close>

definition pair_count :: "'a option list \<Rightarrow> 'b option list \<Rightarrow> 'a \<Rightarrow> 'b \<Rightarrow> nat" where
  "pair_count ks1 ks2 a b = length (filter (\<lambda>row. row = (Some a, Some b)) (zip ks1 ks2))"

definition observed_pairs :: "'a option list \<Rightarrow> 'b option list \<Rightarrow> ('a \<times> 'b) set" where
  "observed_pairs ks1 ks2 = {(a, b). (Some a, Some b) \<in> set (zip ks1 ks2)}"

definition keyed_rows :: "'a option list \<Rightarrow> 'b option list \<Rightarrow> nat" where
  "keyed_rows ks1 ks2 = length (filter (\<lambda>(a, b). a \<noteq> None \<and> b \<noteq> None) (zip ks1 ks2))"

text \<open>The key pair of a row of a count report.\<close>

definition row_key :: "'a \<times> 'b \<times> nat \<Rightarrow> 'a \<times> 'b" where
  "row_key r = (fst r, fst (snd r))"

definition row_count :: "'a \<times> 'b \<times> nat \<Rightarrow> nat" where
  "row_count r = snd (snd r)"

text \<open>A file of the expected columns that holds no order.\<close>

definition empty_orders :: "real dataframe" where
  "empty_orders =
     [(''Ship Mode'', StrCol []), (''Region'', StrCol []), (''Category'', StrCol []),
      (''Sub Category'', StrCol []), (''cost price'', NumCol []), (''List Price'', NumCol []),
      (''Quantity'', NumCol []), (''Discount Percent'', NumCol []), (''Profit'', NumCol [])]"

text \<open>Four orders with a field missing in three of them.\<close>

definition gappy_orders :: "real dataframe" where
  "gappy_orders =
     [(''Region'', StrCol [Some ''East'', None, Some ''West'', Some ''East'']),
      (''Category'', StrCol [Some ''Furniture'', Some ''Furniture'', None, Some ''Technology'']),
      (''Sub Category'', StrCol [Some ''Chairs'', Some ''Chairs'', Some ''Labels'', Some ''Phones'']),
      (''Ship Mode'', StrCol [Some ''First Class'', None, Some ''Same Day'', Some ''Same Day'']),
      (''Profit'', NumCol [Some 5, Some 100, Some 7, Some 1])]"

text \<open>
  Five orders of three regions, each sold below cost (after the repository's test of
  negative profits, with the profit column already computed and two regions having two
  orders each).
\<close>

definition loss_orders :: "real dataframe" where
  "loss_orders =
     [(''Region'', StrCol [Some ''East'', Some ''East'', Some ''West'', Some ''West'',
                           Some ''South'']),
      (''Profit'', NumCol [Some (- 4), Some (- 6), Some (- 20), Some (- 5), Some (- 10)])]"

text \<open>
  Orders of the repository's tie test extended by one category: in Furniture two ship
  modes are used twice and one once, in Technology one mode is used once.
\<close>

definition tie_orders :: "real dataframe" where
  "tie_orders =
     [(''Category'', StrCol [Some ''Furniture'', Some ''Furniture'', Some ''Furniture'',
                             Some ''Furniture'', Some ''Furniture'', Some ''Technology'']),
      (''Ship Mode'', StrCol [Some ''Standard Class'', Some ''Standard Class'',
                              Some ''First Class'', Some ''First Class'', Some ''Same Day'',
                              Some ''Ground''])]"

text \<open>
  \<open>df[keep]\<close>: the frame restricted to the rows whose entry in the mask is true, in
  their order. \<open>both_present\<close> is the mask of the rows in which two keys are both
  present, \<open>is_present\<close> the mask of the rows in which one key is.
\<close>

fun select :: "bool list \<Rightarrow> 'a list \<Rightarrow> 'a list" where
  "select (b # bs) (x # xs) = (if b then x # select bs xs else select bs xs)"
| "select bs xs = []"

fun select_col :: "bool list \<Rightarrow> 'n column \<Rightarrow> 'n column" where
  "select_col keep (NumCol xs) = NumCol (select keep xs)"
| "select_col keep (StrCol ss) = StrCol (select keep ss)"
| "select_col keep (CountCol ns) = CountCol (select keep ns)"

definition select_rows :: "bool list \<Rightarrow> 'n dataframe \<Rightarrow> 'n dataframe" where
  "select_rows keep df = map (\<lambda>(name, c). (name, select_col keep c)) df"

definition is_present :: "'a option list \<Rightarrow> bool list" where
  "is_present ks = map (\<lambda>k. k \<noteq> None) ks"

definition both_present :: "'a option list \<Rightarrow> 'b option list \<Rightarrow> bool list" where
  "both_present ks1 ks2 = map (\<lambda>(a, b). a \<noteq> None \<and> b \<noteq> None) (zip ks1 ks2)"

section \<open>Basic facts about frames\<close>

lemma map_of_setitem: "map_of (setitem df name c) = (map_of df)(name \<mapsto> c)"
  by (induction df name c rule: setitem.induct) (auto simp: fun_eq_iff)

lemma getitem_setitem_same: "getitem (setitem df name c) name = Inr c"
  by (simp add: getitem_def map_of_setitem)

lemma getitem_setitem_other:
  "name' \<noteq> name \<Longrightarrow> getitem (setitem df name c) name' = getitem df name'"
  by (simp add: getitem_def map_of_setitem)

lemma getitem_in_set: "getitem df name = Inr c \<Longrightarrow> (name, c) \<in> set df"
  by (auto simp: getitem_def split: option.splits dest: map_of_SomeD)

lemma getitem_col_len:
  assumes "wf_df df" and "getitem df name = Inr c"
  shows "col_len c = nrows df"
  using assms(1) getitem_in_set [OF assms(2)]
  by (auto simp: wf_df_def list_all_iff)

lemma example_orders_wf: "wf_df example_orders"
  by (simp add: example_orders_def wf_df_def nrows_def)

section \<open>Profit per order\<close>

lemma lift2_bind: "lift2 f a b = Option.bind a (\<lambda>x. Option.bind b (f x))"
  by (cases a; cases b) simp_all

lemma lift2_chain_row_profit:
  "lift2 (m_sub m)
     (lift2 (m_mul m) (lift2 (m_mul m) lp q)
        (lift2 (m_sub m) (Some (m_lit m 1)) (lift2 (m_div m) d (Some (m_lit m 100)))))
     (lift2 (m_mul m) cp q) =
   row_profit m lp q d cp"
  by (cases lp; cases q; cases d; cases cp)
    (auto simp: lift2_bind row_profit_def split: Option.bind_splits)





section \<open>Missing columns\<close>

lemma getitem_missing:
  assumes "\<not> has_column df name"
  shows "getitem df name = Inl (KeyError name)"
proof -
  have "map_of df name = None"
    using assms by (simp add: map_of_eq_None_iff has_column_def)
  then show ?thesis by (simp add: getitem_def)
qed

lemma getitem_has_column: "getitem df name = Inr c \<Longrightarrow> has_column df name"
  by (auto simp: has_column_def dest: getitem_in_set intro: rev_image_eqI)

lemma as_numeric_len: "as_numeric c = Inr xs \<Longrightarrow> length xs = col_len c"
  by (cases c) (auto split: if_splits)

lemma arith_len: "arith f a b = Inr c \<Longrightarrow> col_len c = min (col_len a) (col_len b)"
  by (auto simp: arith_def bind_err_def split: sum.splits dest!: as_numeric_len)

lemma arith_right_len: "arith_right f a k = Inr c \<Longrightarrow> col_len c = col_len a"
  by (auto simp: arith_right_def bind_err_def split: sum.splits dest!: as_numeric_len)

lemma arith_left_len: "arith_left f k a = Inr c \<Longrightarrow> col_len c = col_len a"
  by (auto simp: arith_left_def bind_err_def split: sum.splits dest!: as_numeric_len)

lemma arith_NumCol: "arith f a b = Inr c \<Longrightarrow> \<exists>ps. c = NumCol ps"
  by (auto simp: arith_def bind_err_def split: sum.splits)

lemma profit_series_NumCol: "profit_series m df = Inr c \<Longrightarrow> \<exists>ps. c = NumCol ps"
  by (auto simp: profit_series_def bind_err_def split: sum.splits dest: arith_NumCol)

lemma profit_series_len:
  assumes "wf_df df" and "profit_series m df = Inr c"
  shows "col_len c = nrows df"
  using assms(2)
  by (auto simp: profit_series_def bind_err_def split: sum.splits
      dest!: arith_len arith_right_len arith_left_len getitem_col_len [OF assms(1)])

lemma profit_series_needs:
  assumes "profit_series m df = Inr c"
  shows "has_column df ''List Price''" and "has_column df ''cost price''"
    and "has_column df ''Quantity''" and "has_column df ''Discount Percent''"
  using assms
  by (auto simp: profit_series_def bind_err_def split: sum.splits dest: getitem_has_column)

lemma names_setitem:
  "map fst (setitem df name c) =
     (if has_column df name then map fst df else map fst df @ [name])"
  by (induction df name c rule: setitem.induct) (auto simp: has_column_def)

lemma nrows_setitem:
  assumes "df \<noteq> []" and "col_len c = nrows df"
  shows "nrows (setitem df name c) = nrows df"
  using assms by (cases df) (auto simp: nrows_def)

lemma wf_setitem:
  assumes "wf_df df" and "df \<noteq> []" and "col_len c = nrows df"
  shows "wf_df (setitem df name c)"
proof -
  have "distinct (map fst (setitem df name c))"
    using assms(1) by (auto simp: names_setitem wf_df_def has_column_def)
  moreover have "set (setitem df name c) \<subseteq> insert (name, c) (set df)"
    by (induction df name c rule: setitem.induct) auto
  ultimately show ?thesis
    using assms by (auto simp: wf_df_def list_all_iff nrows_setitem)
qed

lemma has_column_nonempty: "has_column df name \<Longrightarrow> df \<noteq> []"
  by (auto simp: has_column_def)

lemma as_numeric_nth:
  assumes "getitem df name = Inr c" and "as_numeric c = Inr xs" and "i < length xs"
  shows "xs ! i = num_at df name i"
  using assms by (cases c) (auto simp: num_at_def split: if_splits)

lemma profit_series_rows:
  assumes "wf_df df" and "profit_series m df = Inr c"
  obtains ps where "c = NumCol ps" and "length ps = nrows df"
    and "\<And>i. i < nrows df \<Longrightarrow>
           ps ! i = row_profit m (num_at df ''List Price'' i) (num_at df ''Quantity'' i)
                      (num_at df ''Discount Percent'' i) (num_at df ''cost price'' i)"
proof -
  from assms(2) obtain lpc qc dc cpc lps qs ds cps
    where g: "getitem df ''List Price'' = Inr lpc" "getitem df ''Quantity'' = Inr qc"
      "getitem df ''Discount Percent'' = Inr dc" "getitem df ''cost price'' = Inr cpc"
    and n: "as_numeric lpc = Inr lps" "as_numeric qc = Inr qs"
      "as_numeric dc = Inr ds" "as_numeric cpc = Inr cps"
    and c: "c = NumCol (map (\<lambda>(x, y). lift2 (m_sub m) x y)
            (zip (map (\<lambda>(x, y). lift2 (m_mul m) x y)
                    (zip (map (\<lambda>(x, y). lift2 (m_mul m) x y) (zip lps qs))
                         (map (\<lambda>x. lift2 (m_sub m) (Some (m_lit m 1)) x)
                              (map (\<lambda>x. lift2 (m_div m) x (Some (m_lit m 100))) ds))))
                 (map (\<lambda>(x, y). lift2 (m_mul m) x y) (zip cps qs))))"
    by (auto simp: profit_series_def bind_err_def arith_def arith_right_def arith_left_def
        split: sum.splits)
  have len: "length lps = nrows df" "length qs = nrows df" "length ds = nrows df"
    "length cps = nrows df"
    using g n getitem_col_len [OF assms(1)] by (simp_all add: as_numeric_len)
  show ?thesis
  proof (rule that [OF c])
    show "length (map (\<lambda>(x, y). lift2 (m_sub m) x y)
            (zip (map (\<lambda>(x, y). lift2 (m_mul m) x y)
                    (zip (map (\<lambda>(x, y). lift2 (m_mul m) x y) (zip lps qs))
                         (map (\<lambda>x. lift2 (m_sub m) (Some (m_lit m 1)) x)
                              (map (\<lambda>x. lift2 (m_div m) x (Some (m_lit m 100))) ds))))
                 (map (\<lambda>(x, y). lift2 (m_mul m) x y) (zip cps qs)))) = nrows df"
      by (simp add: len)
  next
    fix i assume i: "i < nrows df"
    have cells: "lps ! i = num_at df ''List Price'' i" "qs ! i = num_at df ''Quantity'' i"
      "ds ! i = num_at df ''Discount Percent'' i" "cps ! i = num_at df ''cost price'' i"
      using i len g n by (simp_all add: as_numeric_nth)
    show "map (\<lambda>(x, y). lift2 (m_sub m) x y)
            (zip (map (\<lambda>(x, y). lift2 (m_mul m) x y)
                    (zip (map (\<lambda>(x, y). lift2 (m_mul m) x y) (zip lps qs))
                         (map (\<lambda>x. lift2 (m_sub m) (Some (m_lit m 1)) x)
                              (map (\<lambda>x. lift2 (m_div m) x (Some (m_lit m 100))) ds))))
                 (map (\<lambda>(x, y). lift2 (m_mul m) x y) (zip cps qs))) ! i =
          row_profit m (num_at df ''List Price'' i) (num_at df ''Quantity'' i)
            (num_at df ''Discount Percent'' i) (num_at df ''cost price'' i)"
      using i len by (simp add: lift2_chain_row_profit cells [symmetric])
  qed
qed

text \<open>
  C6. When the frame lacks the cost price or the list price column, the call ends in an
  error, and the heap after it is the heap before it: no profit column has been
  written and no frame is returned. A missing list price is reported as the KeyError of
  that name, since it is the first column read.
\<close>

theorem missing_field_fails:
  assumes "\<not> has_column (h a) ''cost price'' \<or> \<not> has_column (h a) ''List Price''"
  shows "isl (fst (calculate_profit_by_order m h a)) \<and>
         snd (calculate_profit_by_order m h a) = h \<and>
         (\<not> has_column (h a) ''List Price'' \<longrightarrow>
            fst (calculate_profit_by_order m h a) = Inl (KeyError ''List Price''))"
proof -
  have "isl (profit_series m (h a))"
    using assms profit_series_needs [where df = "h a"] by (cases "profit_series m (h a)") auto
  moreover have "\<not> has_column (h a) ''List Price'' \<Longrightarrow>
      profit_series m (h a) = Inl (KeyError ''List Price'')"
    by (simp add: profit_series_def bind_err_def getitem_missing)
  ultimately show ?thesis
    by (auto simp: calculate_profit_by_order_def split: sum.splits)
qed

theorem missing_field_fails_witness:
  "isl (fst (calculate_profit_by_order exact_machine
          (\<lambda>a. [(''Quantity'', NumCol [Some 2])]) 0)) \<and>
   snd (calculate_profit_by_order exact_machine (\<lambda>a. [(''Quantity'', NumCol [Some 2])]) 0) =
     (\<lambda>a. [(''Quantity'', NumCol [Some 2])]) \<and>
   fst (calculate_profit_by_order exact_machine (\<lambda>a. [(''Quantity'', NumCol [Some 2])]) 0) =
     Inl (KeyError ''List Price'')"
  using missing_field_fails [where h = "\<lambda>a. [(''Quantity'', NumCol [Some 2])]" and a = 0
      and m = exact_machine]
  by (simp add: has_column_def)
section \<open>What the profit column changes in the frame\<close>

lemma has_column_getitem: "has_column df name \<Longrightarrow> \<exists>c. getitem df name = Inr c"
  by (cases "getitem df name") (auto simp: getitem_def has_column_def map_of_eq_None_iff
      split: option.splits)

lemma empty_column:
  assumes "wf_df df" and "nrows df = 0" and "getitem df name = Inr c"
  shows "as_keys c = Inr []" and "as_numeric c = Inr []"
  using getitem_col_len [OF assms(1,3)] assms(2) by (cases c; simp)+

lemma profit_series_empty:
  assumes "wf_df df" and "nrows df = 0"
    and "has_column df ''List Price''" and "has_column df ''Quantity''"
    and "has_column df ''Discount Percent''" and "has_column df ''cost price''"
  shows "profit_series m df = Inr (NumCol [])"
proof -
  from assms(3-6) obtain lpc qc dc cpc
    where g: "getitem df ''List Price'' = Inr lpc" "getitem df ''Quantity'' = Inr qc"
      "getitem df ''Discount Percent'' = Inr dc" "getitem df ''cost price'' = Inr cpc"
    by (blast dest: has_column_getitem)
  have "as_numeric lpc = Inr []" "as_numeric qc = Inr []" "as_numeric dc = Inr []"
    "as_numeric cpc = Inr []"
    using g empty_column(2) [OF assms(1,2)] by blast+
  with g show ?thesis
    by (simp add: profit_series_def bind_err_def arith_def arith_right_def arith_left_def)
qed

text \<open>
  C8 as stated fails on a frame that already has a column named Profit: its values are
  replaced by the computed profit.
\<close>

theorem profit_overwrites_counterexample:
  "wf_df priced_orders \<and>
   fst (calculate_profit_by_order exact_machine (\<lambda>a. priced_orders) 0) = Inr 0 \<and>
   getitem priced_orders ''Profit'' = Inr (NumCol [Some 0]) \<and>
   getitem (snd (calculate_profit_by_order exact_machine (\<lambda>a. priced_orders) 0) 0) ''Profit'' =
     Inr (NumCol [Some 6])"
  by (simp add: priced_orders_def wf_df_def nrows_def calculate_profit_by_order_def
      profit_series_def bind_err_def getitem_def arith_def arith_right_def arith_left_def
      exact_machine_def)

text \<open>
  C8, amended. After a successful call on a well-formed frame the frame has the same
  number of rows, the same columns in the same order with Profit appended when it was
  not there, and every column other than Profit with the values it had (so the rows
  are in their order). Its Profit column is numeric, has one entry per row, and holds
  in each row the profit that the machine computes from the four fields of that row,
  whatever a column of that name held before. On a frame without rows that has the
  four columns the call succeeds and the Profit column is there and empty.
\<close>

theorem profit_frame:
  assumes "wf_df (h a)"
  shows "(\<forall>a'. fst (calculate_profit_by_order m h a) = Inr a' \<longrightarrow>
            a' = a \<and>
            wf_df (snd (calculate_profit_by_order m h a) a) \<and>
            nrows (snd (calculate_profit_by_order m h a) a) = nrows (h a) \<and>
            map fst (snd (calculate_profit_by_order m h a) a) =
              (if has_column (h a) ''Profit'' then map fst (h a)
               else map fst (h a) @ [''Profit'']) \<and>
            (\<forall>name. name \<noteq> ''Profit'' \<longrightarrow>
               getitem (snd (calculate_profit_by_order m h a) a) name = getitem (h a) name) \<and>
            (\<exists>ps. getitem (snd (calculate_profit_by_order m h a) a) ''Profit'' =
                    Inr (NumCol ps) \<and>
                  length ps = nrows (h a) \<and>
                  (\<forall>i < nrows (h a).
                     ps ! i =
                       row_profit m (num_at (h a) ''List Price'' i) (num_at (h a) ''Quantity'' i)
                         (num_at (h a) ''Discount Percent'' i) (num_at (h a) ''cost price'' i)))) \<and>
         (nrows (h a) = 0 \<and> has_column (h a) ''List Price'' \<and> has_column (h a) ''Quantity'' \<and>
          has_column (h a) ''Discount Percent'' \<and> has_column (h a) ''cost price'' \<longrightarrow>
            fst (calculate_profit_by_order m h a) = Inr a \<and>
            getitem (snd (calculate_profit_by_order m h a) a) ''Profit'' = Inr (NumCol []))"
proof (intro conjI allI impI)
  fix a'
  assume ok: "fst (calculate_profit_by_order m h a) = Inr a'"
  then obtain c where c: "profit_series m (h a) = Inr c" and a': "a' = a"
    by (auto simp: calculate_profit_by_order_def split: sum.splits)
  have h': "snd (calculate_profit_by_order m h a) a = setitem (h a) ''Profit'' c"
    by (simp add: calculate_profit_by_order_def c)
  obtain ps where ps: "c = NumCol ps" and lps: "length ps = nrows (h a)"
    and rows: "\<And>i. i < nrows (h a) \<Longrightarrow>
      ps ! i = row_profit m (num_at (h a) ''List Price'' i) (num_at (h a) ''Quantity'' i)
                 (num_at (h a) ''Discount Percent'' i) (num_at (h a) ''cost price'' i)"
    by (rule profit_series_rows [OF assms c]) (rule that)
  have len: "col_len c = nrows (h a)" using ps lps by simp
  have ne: "h a \<noteq> []" using profit_series_needs(1) [OF c] by (rule has_column_nonempty)
  show "a' = a" by (rule a')
  show "wf_df (snd (calculate_profit_by_order m h a) a)"
    unfolding h' by (rule wf_setitem [OF assms ne len])
  show "nrows (snd (calculate_profit_by_order m h a) a) = nrows (h a)"
    unfolding h' by (rule nrows_setitem [OF ne len])
  show "map fst (snd (calculate_profit_by_order m h a) a) =
      (if has_column (h a) ''Profit'' then map fst (h a) else map fst (h a) @ [''Profit''])"
    unfolding h' by (rule names_setitem)
  show "getitem (snd (calculate_profit_by_order m h a) a) name = getitem (h a) name"
    if "name \<noteq> ''Profit''" for name
    unfolding h' using that by (rule getitem_setitem_other)
  show "\<exists>ps. getitem (snd (calculate_profit_by_order m h a) a) ''Profit'' = Inr (NumCol ps) \<and>
      length ps = nrows (h a) \<and>
      (\<forall>i < nrows (h a).
         ps ! i = row_profit m (num_at (h a) ''List Price'' i) (num_at (h a) ''Quantity'' i)
                    (num_at (h a) ''Discount Percent'' i) (num_at (h a) ''cost price'' i))"
    unfolding h' using ps lps rows by (auto simp: getitem_setitem_same)
next
  assume e: "nrows (h a) = 0 \<and> has_column (h a) ''List Price'' \<and> has_column (h a) ''Quantity'' \<and>
    has_column (h a) ''Discount Percent'' \<and> has_column (h a) ''cost price''"
  then have c: "profit_series m (h a) = Inr (NumCol [])"
    using profit_series_empty [OF assms] by blast
  show "fst (calculate_profit_by_order m h a) = Inr a"
    by (simp add: calculate_profit_by_order_def c)
  show "getitem (snd (calculate_profit_by_order m h a) a) ''Profit'' = Inr (NumCol [])"
    by (simp add: calculate_profit_by_order_def c getitem_setitem_same)
qed

theorem profit_frame_witness:
  "nrows (snd (calculate_profit_by_order exact_machine (\<lambda>a. example_orders) 0) 0) = 4 \<and>
   map fst (snd (calculate_profit_by_order exact_machine (\<lambda>a. example_orders) 0) 0) =
     map fst example_orders @ [''Profit''] \<and>
   getitem (snd (calculate_profit_by_order exact_machine (\<lambda>a. example_orders) 0) 0) ''Region'' =
     getitem example_orders ''Region'' \<and>
   getitem (snd (calculate_profit_by_order exact_machine (\<lambda>a. example_orders) 0) 0) ''Profit'' =
     Inr (NumCol [Some 40, Some 390, Some 0, Some 900]) \<and>
   fst (calculate_profit_by_order exact_machine (\<lambda>a. empty_orders) 0) = Inr 0 \<and>
   getitem (snd (calculate_profit_by_order exact_machine (\<lambda>a. empty_orders) 0) 0) ''Profit'' =
     Inr (NumCol [])"
proof -
  have ok: "fst (calculate_profit_by_order exact_machine (\<lambda>a. example_orders) 0) = Inr 0"
    and p: "getitem (snd (calculate_profit_by_order exact_machine (\<lambda>a. example_orders) 0) 0)
      ''Profit'' = Inr (NumCol [Some 40, Some 390, Some 0, Some 900])"
    by (simp_all add: calculate_profit_by_order_def profit_series_def bind_err_def getitem_def
        arith_def arith_right_def arith_left_def example_orders_def exact_machine_def)
  have n: "nrows example_orders = 4" "\<not> has_column example_orders ''Profit''"
    by (simp_all add: example_orders_def nrows_def has_column_def)
  have e: "wf_df empty_orders" "nrows empty_orders = 0"
    "has_column empty_orders ''List Price''" "has_column empty_orders ''Quantity''"
    "has_column empty_orders ''Discount Percent''" "has_column empty_orders ''cost price''"
    by (simp_all add: empty_orders_def wf_df_def nrows_def has_column_def)
  note full = profit_frame [where h = "\<lambda>a. example_orders" and a = 0 and m = exact_machine,
      OF example_orders_wf, THEN conjunct1, rule_format, OF ok]
  note none = profit_frame [where h = "\<lambda>a. empty_orders" and a = 0 and m = exact_machine,
      OF e(1), THEN conjunct2, rule_format]
  from full have "nrows (snd (calculate_profit_by_order exact_machine (\<lambda>a. example_orders) 0) 0) =
      nrows example_orders"
    and "map fst (snd (calculate_profit_by_order exact_machine (\<lambda>a. example_orders) 0) 0) =
      (if has_column example_orders ''Profit'' then map fst example_orders
       else map fst example_orders @ [''Profit''])"
    and "getitem (snd (calculate_profit_by_order exact_machine (\<lambda>a. example_orders) 0) 0)
      ''Region'' = getitem example_orders ''Region''"
    by simp_all
  moreover from none e(2-6)
  have "fst (calculate_profit_by_order exact_machine (\<lambda>a. empty_orders) 0) = Inr 0 \<and>
    getitem (snd (calculate_profit_by_order exact_machine (\<lambda>a. empty_orders) 0) 0) ''Profit'' =
      Inr (NumCol [])"
    by blast
  ultimately show ?thesis
    using p n by simp
qed
section \<open>The caller's frame\<close>

lemma calculate_profit_effect:
  "calculate_profit_by_order m h a =
     (case profit_series m (h a) of
        Inl e \<Rightarrow> (Inl e, h)
      | Inr c \<Rightarrow> (Inr a, h(a := setitem (h a) ''Profit'' c)))"
  by (simp add: calculate_profit_by_order_def)

lemma calculate_profit_success:
  assumes "fst (calculate_profit_by_order m h a) = Inr a'"
  obtains c where "profit_series m (h a) = Inr c" and "a' = a"
    and "snd (calculate_profit_by_order m h a) = h(a := setitem (h a) ''Profit'' c)"
  using assms by (auto simp: calculate_profit_effect split: sum.splits)

lemma has_column_setitem: "has_column (setitem df name c) name"
  by (simp add: has_column_def names_setitem)

lemma example_orders_profit:
  "profit_series exact_machine example_orders =
     Inr (NumCol [Some 40, Some 390, Some 0, Some 900])"
  by (simp add: profit_series_def bind_err_def getitem_def arith_def arith_right_def
      arith_left_def example_orders_def exact_machine_def)

text \<open>
  C4 as stated fails: the caller holds the frame at address 0, which has no Profit
  column before the call and has one after it, and the reference returned is that same
  address.
\<close>

theorem caller_frame_mutated_counterexample:
  "\<not> has_column example_orders ''Profit'' \<and>
   fst (calculate_profit_by_order exact_machine (\<lambda>a. example_orders) 0) = Inr 0 \<and>
   has_column (snd (calculate_profit_by_order exact_machine (\<lambda>a. example_orders) 0) 0) ''Profit''"
  by (simp add: calculate_profit_effect example_orders_profit has_column_setitem)
    (simp add: has_column_def example_orders_def)

text \<open>
  C4, amended. The call has exactly one effect: when it succeeds it writes the profit
  column into the frame it was given, in place, and returns the reference it was given
  rather than a new frame; when it fails it changes nothing. Frames at other addresses
  are never changed.
\<close>

theorem profit_in_place:
  "(\<forall>b. b \<noteq> a \<longrightarrow> snd (calculate_profit_by_order m h a) b = h b) \<and>
   (case fst (calculate_profit_by_order m h a) of
      Inl e \<Rightarrow> snd (calculate_profit_by_order m h a) = h
    | Inr a' \<Rightarrow> a' = a \<and>
        (\<exists>c. profit_series m (h a) = Inr c \<and>
             snd (calculate_profit_by_order m h a) a = setitem (h a) ''Profit'' c))"
  by (simp add: calculate_profit_effect split: sum.splits)

theorem profit_in_place_witness:
  "snd (calculate_profit_by_order exact_machine ((\<lambda>a. [])(0 := example_orders)) 0) 1 = [] \<and>
   fst (calculate_profit_by_order exact_machine ((\<lambda>a. [])(0 := example_orders)) 0) = Inr 0 \<and>
   snd (calculate_profit_by_order exact_machine ((\<lambda>a. [])(0 := example_orders)) 0) 0 =
     setitem example_orders ''Profit''
       (NumCol [Some 40, Some 390, Some 0, Some 900])"
  using profit_in_place [where a = 0 and h = "(\<lambda>a. [])(0 := example_orders)"
      and m = exact_machine]
  by (simp add: calculate_profit_effect example_orders_profit)

section \<open>The reports do not depend on the profit column\<close>

lemma ship_method_setitem_profit:
  assumes "df \<noteq> []" and "col_len c = nrows df"
  shows "find_most_common_ship_method (setitem df ''Profit'' c) =
         find_most_common_ship_method df"
proof -
  have "setitem df ''Profit'' c \<noteq> []"
    by (cases df) (auto split: if_splits)
  then have "df_empty (setitem df ''Profit'' c) = df_empty df"
    using assms by (simp add: df_empty_def nrows_setitem)
  then show ?thesis
    by (simp add: find_most_common_ship_method_def getitem_setitem_other)
qed

lemma category_count_setitem_profit:
  "find_number_of_order_per_category (setitem df ''Profit'' c) =
   find_number_of_order_per_category df"
  by (simp add: find_number_of_order_per_category_def getitem_setitem_other)

text \<open>
  C9. The ship-method report and the category report are the same whether computed
  from the dataset as supplied or from the profit-augmented one, so the two reports of
  the bundle are those of the dataset as supplied; the region report of the bundle is
  computed from the profit-augmented dataset, which is the one the bundle refers to.
\<close>

theorem reports_from_original:
  assumes "wf_df (h a)" and "fst (generate_analytics_reports m h a) = Inr reps"
  shows "find_most_common_ship_method (snd (calculate_profit_by_order m h a) a) =
           find_most_common_ship_method (h a) \<and>
         find_number_of_order_per_category (snd (calculate_profit_by_order m h a) a) =
           find_number_of_order_per_category (h a) \<and>
         find_most_common_ship_method (h a) = Inr (most_common_ship_method reps) \<and>
         find_number_of_order_per_category (h a) = Inr (orders_by_category reps) \<and>
         fst (calculate_profit_by_order m h a) = Inr (orders_with_profit reps) \<and>
         calculate_most_profitable_region m
           (snd (calculate_profit_by_order m h a) (orders_with_profit reps)) =
             Inr (most_profitable_region reps)"
proof -
  from assms(2) obtain a' where ok: "fst (calculate_profit_by_order m h a) = Inr a'"
    by (auto simp: generate_analytics_reports_def split: prod.splits sum.splits)
  then obtain c where c: "profit_series m (h a) = Inr c" and a': "a' = a"
    and h': "snd (calculate_profit_by_order m h a) = h(a := setitem (h a) ''Profit'' c)"
    by (rule calculate_profit_success)
  have len: "col_len c = nrows (h a)" by (rule profit_series_len [OF assms(1) c])
  have ne: "h a \<noteq> []" using profit_series_needs(1) [OF c] by (rule has_column_nonempty)
  have ship: "find_most_common_ship_method (setitem (h a) ''Profit'' c) =
      find_most_common_ship_method (h a)"
    by (rule ship_method_setitem_profit [OF ne len])
  have cat: "find_number_of_order_per_category (setitem (h a) ''Profit'' c) =
      find_number_of_order_per_category (h a)"
    by (rule category_count_setitem_profit)
  have calc: "calculate_profit_by_order m h a = (Inr a, h(a := setitem (h a) ''Profit'' c))"
    by (simp add: calculate_profit_effect c)
  from assms(2) have
    "calculate_most_profitable_region m (setitem (h a) ''Profit'' c) =
       Inr (most_profitable_region reps) \<and>
     find_most_common_ship_method (setitem (h a) ''Profit'' c) =
       Inr (most_common_ship_method reps) \<and>
     find_number_of_order_per_category (setitem (h a) ''Profit'' c) =
       Inr (orders_by_category reps) \<and>
     orders_with_profit reps = a"
    by (auto simp: generate_analytics_reports_def calc bind_err_def split: sum.splits)
  then show ?thesis
    by (simp add: calc ship cat)
qed


lemma example_reports_generated:
  "fst (generate_analytics_reports exact_machine (\<lambda>a. example_orders) 0) = Inr example_reports"
  by code_simp

theorem reports_from_original_witness:
  "find_most_common_ship_method example_orders =
     Inr (ship_report [(''Furniture'', ''First Class'', 1), (''Furniture'', ''Same Day'', 1),
                       (''Furniture'', ''Standard Class'', 1),
                       (''Office Supplies'', ''Standard Class'', 1)]) \<and>
   find_most_common_ship_method (snd (calculate_profit_by_order exact_machine (\<lambda>a. example_orders) 0) 0) =
     find_most_common_ship_method example_orders \<and>
   calculate_most_profitable_region exact_machine (snd (calculate_profit_by_order exact_machine (\<lambda>a. example_orders) 0) 0) =
     Inr (region_report [(''Central'', 900)])"
  using reports_from_original [where h = "\<lambda>a. example_orders" and a = 0
      and reps = example_reports and m = exact_machine,
      OF example_orders_wf example_reports_generated]
  by (simp add: example_reports_def)

section \<open>Facts about grouping\<close>

lemma set_key_pairs: "set (key_pairs ks1 ks2) = observed_pairs ks1 ks2"
  by (induction ks1 ks2 rule: list_induct2')
    (auto simp: key_pairs_def observed_pairs_def split: option.splits)

lemma count_key_pairs: "count_list (key_pairs ks1 ks2) (a, b) = pair_count ks1 ks2 a b"
  by (induction ks1 ks2 rule: list_induct2')
    (auto simp: key_pairs_def pair_count_def split: option.splits)

lemma length_key_pairs: "length (key_pairs ks1 ks2) = keyed_rows ks1 ks2"
  by (induction ks1 ks2 rule: list_induct2')
    (auto simp: key_pairs_def keyed_rows_def split: option.splits)

lemma sum_count_distinct: "sum_list (map (count_list xs) (sort (remdups xs))) = length xs"
proof -
  have "sum_list (map (count_list xs) (sort (remdups xs))) = sum (count_list xs) (set xs)"
    by (simp add: sum_list_distinct_conv_sum_set)
  also have "\<dots> = length xs"
    by (rule sum_count_set) simp_all
  finally show ?thesis .
qed

lemma groupby_size_keys:
  "map row_key (groupby_size ks1 ks2) = sort (remdups (key_pairs ks1 ks2))"
  by (simp add: groupby_size_def Let_def row_key_def comp_def case_prod_beta)

lemma groupby_size_counts:
  "map row_count (groupby_size ks1 ks2) =
     map (count_list (key_pairs ks1 ks2)) (sort (remdups (key_pairs ks1 ks2)))"
  by (simp add: groupby_size_def Let_def row_count_def comp_def case_prod_beta)

lemma groupby_size_row:
  assumes "r \<in> set (groupby_size ks1 ks2)"
  shows "row_count r = pair_count ks1 ks2 (fst (row_key r)) (snd (row_key r))"
    and "row_key r \<in> observed_pairs ks1 ks2"
  using assms
  by (auto simp: groupby_size_def Let_def row_count_def row_key_def count_key_pairs
      set_key_pairs [symmetric])

lemma groupby_size_sorted: "sorted (map row_key (groupby_size ks1 ks2))"
  by (simp add: groupby_size_keys)

lemma groupby_size_distinct: "distinct (map row_key (groupby_size ks1 ks2))"
  by (simp add: groupby_size_keys)

lemma groupby_size_set:
  "set (map row_key (groupby_size ks1 ks2)) = observed_pairs ks1 ks2"
  by (simp only: groupby_size_keys set_sort set_remdups set_key_pairs)

lemma groupby_size_total:
  "sum_list (map row_count (groupby_size ks1 ks2)) = keyed_rows ks1 ks2"
  by (simp only: groupby_size_counts sum_count_distinct length_key_pairs)

section \<open>Orders per category and sub-category\<close>

text \<open>
  C5. For a frame with text columns Category and Sub Category the call succeeds, and
  its report has one row for each pair of category and sub-category that some row of
  the frame carries, no pair twice and none left out (so as many rows as there are
  distinct pairs), the count of a row being the number of orders with that pair; the
  counts add up to the number of orders in which both fields are present.
\<close>

theorem category_counts_enumerate:
  assumes "getitem df ''Category'' = Inr (StrCol cats)"
    and "getitem df ''Sub Category'' = Inr (StrCol subs)"
  shows "\<exists>rows. find_number_of_order_per_category df = Inr (category_report rows) \<and>
           distinct (map row_key rows) \<and>
           set (map row_key rows) = observed_pairs cats subs \<and>
           length rows = card (observed_pairs cats subs) \<and>
           (\<forall>r \<in> set rows. row_count r = pair_count cats subs (fst (row_key r)) (snd (row_key r))) \<and>
           sum_list (map row_count rows) = keyed_rows cats subs"
proof (intro exI conjI)
  show "find_number_of_order_per_category df = Inr (category_report (groupby_size cats subs))"
    by (simp add: find_number_of_order_per_category_def assms bind_err_def)
  show d: "distinct (map row_key (groupby_size cats subs))"
    by (rule groupby_size_distinct)
  show s: "set (map row_key (groupby_size cats subs)) = observed_pairs cats subs"
    by (rule groupby_size_set)
  have "length (groupby_size cats subs) = length (map row_key (groupby_size cats subs))"
    by simp
  also have "\<dots> = card (set (map row_key (groupby_size cats subs)))"
    using d by (rule distinct_card [symmetric])
  finally show "length (groupby_size cats subs) = card (observed_pairs cats subs)"
    by (simp only: s)
  show "\<forall>r \<in> set (groupby_size cats subs).
      row_count r = pair_count cats subs (fst (row_key r)) (snd (row_key r))"
    by (simp add: groupby_size_row(1))
  show "sum_list (map row_count (groupby_size cats subs)) = keyed_rows cats subs"
    by (rule groupby_size_total)
qed


theorem category_counts_enumerate_witness:
  "\<exists>rows. find_number_of_order_per_category gappy_orders = Inr (category_report rows) \<and>
          distinct (map row_key rows) \<and>
          sum_list (map row_count rows) = 3"
proof -
  have c: "getitem gappy_orders ''Category'' =
      Inr (StrCol [Some ''Furniture'', Some ''Furniture'', None, Some ''Technology''])"
    by (simp add: getitem_def gappy_orders_def)
  have s: "getitem gappy_orders ''Sub Category'' =
      Inr (StrCol [Some ''Chairs'', Some ''Chairs'', Some ''Labels'', Some ''Phones''])"
    by (simp add: getitem_def gappy_orders_def)
  have k: "keyed_rows [Some ''Furniture'', Some ''Furniture'', None, Some ''Technology'']
      [Some ''Chairs'', Some ''Chairs'', Some ''Labels'', Some ''Phones''] = 3"
    by (simp add: keyed_rows_def)
  from category_counts_enumerate [OF c s] show ?thesis
    unfolding k by blast
qed

section \<open>Frames without rows\<close>

lemma most_profitable_rows_empty: "most_profitable_rows m [] [] = []"
  by (simp add: most_profitable_rows_def groupby_sum_def group_keys_def present_def)

lemma groupby_size_empty: "groupby_size [] [] = []"
  by (simp add: groupby_size_def key_pairs_def)

text \<open>
  C7. On a well-formed frame without rows each of the three aggregators returns an
  empty report of its shape instead of failing: the region aggregator when the frame
  has the Region and Profit columns, the ship-method aggregator always, the category
  counter when the frame has the Category and Sub Category columns.
\<close>

theorem empty_input_reports:
  assumes "wf_df df" and "nrows df = 0"
  shows "(has_column df ''Region'' \<and> has_column df ''Profit'' \<longrightarrow>
            calculate_most_profitable_region m df =
              Inr [(''Region'', StrCol []), (''Total_Profit'', NumCol [])]) \<and>
         find_most_common_ship_method df =
           Inr [(''Category'', StrCol []), (''Ship Mode'', StrCol []), (''Count'', CountCol [])] \<and>
         (has_column df ''Category'' \<and> has_column df ''Sub Category'' \<longrightarrow>
            find_number_of_order_per_category df =
              Inr [(''Category'', StrCol []), (''Sub Category'', StrCol []),
                   (''order_count'', CountCol [])])"
proof (intro conjI impI)
  assume "has_column df ''Region'' \<and> has_column df ''Profit''"
  then obtain rc pc where "getitem df ''Region'' = Inr rc" and "getitem df ''Profit'' = Inr pc"
    by (blast dest: has_column_getitem)
  then show "calculate_most_profitable_region m df =
      Inr [(''Region'', StrCol []), (''Total_Profit'', NumCol [])]"
    using empty_column [OF assms]
    by (simp add: calculate_most_profitable_region_def bind_err_def
        most_profitable_rows_empty region_report_def)
next
  show "find_most_common_ship_method df =
      Inr [(''Category'', StrCol []), (''Ship Mode'', StrCol []), (''Count'', CountCol [])]"
    using assms(2) by (simp add: find_most_common_ship_method_def df_empty_def count_report_def)
next
  assume "has_column df ''Category'' \<and> has_column df ''Sub Category''"
  then obtain cc sc where "getitem df ''Category'' = Inr cc"
    and "getitem df ''Sub Category'' = Inr sc"
    by (blast dest: has_column_getitem)
  then show "find_number_of_order_per_category df =
      Inr [(''Category'', StrCol []), (''Sub Category'', StrCol []),
           (''order_count'', CountCol [])]"
    using empty_column [OF assms]
    by (simp add: find_number_of_order_per_category_def bind_err_def
        groupby_size_empty count_report_def)
qed

theorem empty_input_reports_witness:
  "calculate_most_profitable_region exact_machine empty_orders =
     Inr [(''Region'', StrCol []), (''Total_Profit'', NumCol [])] \<and>
   find_most_common_ship_method empty_orders =
     Inr [(''Category'', StrCol []), (''Ship Mode'', StrCol []), (''Count'', CountCol [])] \<and>
   find_number_of_order_per_category empty_orders =
     Inr [(''Category'', StrCol []), (''Sub Category'', StrCol []),
          (''order_count'', CountCol [])]"
proof -
  have "wf_df empty_orders" and "nrows empty_orders = 0"
    by (simp_all add: empty_orders_def wf_df_def nrows_def)
  from empty_input_reports [where m = exact_machine, OF this] show ?thesis
    by (simp add: has_column_def empty_orders_def)
qed

section \<open>Selecting the maximum\<close>

lemma series_max_Cons: "series_max (x # xs) = Some (Max (set (x # xs)))"
  by (simp only: series_max.simps Max.set_eq_fold)

lemma series_max_eq:
  "series_max xs = (if xs = [] then None else Some (Max (set xs)))"
proof (cases xs)
  case Nil
  then show ?thesis by simp
next
  case (Cons a list)
  then show ?thesis using series_max_Cons [of a list] by simp
qed

lemma set_filter_max:
  "set (filter (\<lambda>r. Some (f r) = series_max (map f rs)) rs) =
     {r \<in> set rs. \<forall>r' \<in> set rs. f r' \<le> f r}"
proof (cases "rs = []")
  case True
  then show ?thesis by simp
next
  case False
  then have ne: "f ` set rs \<noteq> {}" and fin: "finite (f ` set rs)" by simp_all
  have "(f r = Max (f ` set rs)) = (\<forall>r' \<in> set rs. f r' \<le> f r)" if "r \<in> set rs" for r
  proof -
    have "(Max (f ` set rs) = f r) = (f r \<in> f ` set rs \<and> (\<forall>a \<in> f ` set rs. a \<le> f r))"
      by (rule Max_eq_iff [OF fin ne])
    with that show ?thesis by auto
  qed
  with False show ?thesis
    by (auto simp: series_max_eq)
qed

lemma set_present: "set (present ks) = {k. Some k \<in> set ks}"
  by (induction ks) (auto simp: present_def split: option.splits)

lemma set_group_keys: "set (group_keys ks) = {k. Some k \<in> set ks}"
  by (simp add: group_keys_def set_present)

lemma sorted_group_keys: "sorted (group_keys ks)"
  by (simp add: group_keys_def)

lemma distinct_group_keys: "distinct (group_keys ks)"
  by (simp add: group_keys_def)

lemma groupby_sum_keys: "map fst (groupby_sum m ks ps) = group_keys ks"
  by (simp add: groupby_sum_def comp_def)

lemma set_groupby_sum:
  "set (groupby_sum m ks ps) = {(k, group_sum m ks ps k) | k. Some k \<in> set ks}"
  by (auto simp: groupby_sum_def set_group_keys)

section \<open>The most profitable region\<close>

lemma series_max_iff:
  assumes "v \<in> set xs"
  shows "(Some v = series_max xs) = (\<forall>v' \<in> set xs. v' \<le> v)"
proof -
  from assms have ne: "set xs \<noteq> {}" and "xs \<noteq> []" by auto
  have "(Max (set xs) = v) = (v \<in> set xs \<and> (\<forall>a \<in> set xs. a \<le> v))"
    by (rule Max_eq_iff [OF finite_set ne])
  with assms \<open>xs \<noteq> []\<close> show ?thesis
    by (auto simp: series_max_eq)
qed

lemma group_sum_values: "group_sum m ks ps k = m_sum m (region_values ks ps k)"
proof -
  have "present (map snd (filter (\<lambda>(r, p). r = Some k) (zip ks ps))) = region_values ks ps k"
    by (induction ks ps rule: list_induct2')
      (auto simp: present_def region_values_def split: option.splits)
  then show ?thesis by (simp add: group_sum_def)
qed

lemma keep_maximal:
  "concat (map (\<lambda>(region, profit).
                  case profit of None \<Rightarrow> []
                  | Some v \<Rightarrow> if Some v = peak then [(region, v)] else []) items) =
     map (\<lambda>x. (fst x, the (snd x))) (filter (\<lambda>x. snd x \<noteq> None \<and> snd x = peak) items)"
  by (induction items) (auto split: option.splits)

lemma most_profitable_rows_filter:
  "most_profitable_rows m regions profits =
     map (\<lambda>x. (fst x, the (snd x)))
       (filter (\<lambda>x. snd x \<noteq> None \<and>
                    snd x = series_max (present (map snd (groupby_sum m regions profits))))
               (groupby_sum m regions profits))"
proof -
  let ?items = "groupby_sum m regions profits"
  let ?peak = "series_max (present (map snd ?items))"
  let ?sel = "map (\<lambda>x. (fst x, the (snd x))) (filter (\<lambda>x. snd x \<noteq> None \<and> snd x = ?peak) ?items)"
  have "sorted (map fst ?items)" by (simp add: groupby_sum_keys sorted_group_keys)
  then have "sorted (map fst (filter (\<lambda>x. snd x \<noteq> None \<and> snd x = ?peak) ?items))"
    by (rule sorted_filter)
  then have "sorted (map fst ?sel)" by (simp add: comp_def)
  then have sel: "sort_key fst ?sel = ?sel" by (rule sort_key_id_if_sorted)
  show ?thesis
    unfolding most_profitable_rows_def Let_def keep_maximal by (rule sel)
qed

lemma most_profitable_rows_keys:
  "map fst (most_profitable_rows m regions profits) =
     map fst (filter (\<lambda>x. snd x \<noteq> None \<and>
                         snd x = series_max (present (map snd (groupby_sum m regions profits))))
                    (groupby_sum m regions profits))"
  unfolding most_profitable_rows_filter by (simp add: comp_def)

lemma most_profitable_rows_sorted: "sorted (map fst (most_profitable_rows m regions profits))"
  unfolding most_profitable_rows_keys
  by (rule sorted_filter) (simp add: groupby_sum_keys sorted_group_keys)

lemma most_profitable_rows_distinct:
  "distinct (map fst (most_profitable_rows m regions profits))"
  unfolding most_profitable_rows_keys
  by (rule distinct_map_filter) (simp add: groupby_sum_keys distinct_group_keys)

lemma set_present_sums:
  "set (present (map snd (groupby_sum m regions profits))) =
     {s. \<exists>r. Some r \<in> set regions \<and> group_sum m regions profits r = Some s}"
  by (auto simp: set_present set_groupby_sum image_iff)

lemma most_profitable_rows_set:
  "set (most_profitable_rows m regions profits) =
     {(r, s) | r s.
        Some r \<in> set regions \<and> m_sum m (region_values regions profits r) = Some s \<and>
        (\<forall>r' s'. Some r' \<in> set regions \<and>
                  m_sum m (region_values regions profits r') = Some s' \<longrightarrow> s' \<le> s)}"
  (is "?L = ?R")
proof (rule set_eqI)
  fix x :: "string \<times> 'a"
  obtain r s where x: "x = (r, s)" by (cases x)
  let ?vals = "present (map snd (groupby_sum m regions profits))"
  have "x \<in> ?L \<longleftrightarrow>
      Some r \<in> set regions \<and> group_sum m regions profits r = Some s \<and>
      Some s = series_max ?vals"
    unfolding most_profitable_rows_filter x
    by (auto simp: set_groupby_sum image_iff) (metis option.sel)+
  also have "\<dots> \<longleftrightarrow>
      Some r \<in> set regions \<and> group_sum m regions profits r = Some s \<and>
      (\<forall>s' \<in> set ?vals. s' \<le> s)"
  proof (cases "Some r \<in> set regions \<and> group_sum m regions profits r = Some s")
    case True
    then have "s \<in> set ?vals" unfolding set_present_sums by blast
    from series_max_iff [OF this] True show ?thesis by simp
  next
    case False
    then show ?thesis by blast
  qed
  also have "\<dots> \<longleftrightarrow> x \<in> ?R"
    unfolding set_present_sums x group_sum_values by blast
  finally show "x \<in> ?L \<longleftrightarrow> x \<in> ?R" .
qed

lemma calculate_most_profitable_region_rows:
  assumes "getitem df ''Region'' = Inr (StrCol regions)"
    and "getitem df ''Profit'' = Inr (NumCol profits)"
  shows "calculate_most_profitable_region m df =
           Inr (region_report (most_profitable_rows m regions profits))"
  by (simp add: calculate_most_profitable_region_def assms bind_err_def)

text \<open>
  C2. For a frame with a text column Region and a numeric column Profit the call
  succeeds. The sum of a region is the machine's sum of the profits present in the
  rows of that region, in their order, so a float64 sum with its rounding where the
  machine is float64. The rows of the report are exactly the regions whose sum is a
  number and is at least the sum of every region whose sum is a number, each with its
  sum: the regions tied for the maximum, the comparison being that of the sums
  themselves with no tolerance. The rows are in strictly ascending order of region
  name. The maximum is taken whatever its sign, so a frame of losses yields the
  regions of least loss.
\<close>

theorem most_profitable_region_spec:
  assumes "getitem df ''Region'' = Inr (StrCol regions)"
    and "getitem df ''Profit'' = Inr (NumCol profits)"
  shows "\<exists>rows. calculate_most_profitable_region m df = Inr (region_report rows) \<and>
           sorted (map fst rows) \<and> distinct (map fst rows) \<and>
           set rows =
             {(r, s) | r s.
                Some r \<in> set regions \<and> m_sum m (region_values regions profits r) = Some s \<and>
                (\<forall>r' s'. Some r' \<in> set regions \<and>
                          m_sum m (region_values regions profits r') = Some s' \<longrightarrow> s' \<le> s)}"
proof (intro exI conjI)
  show "calculate_most_profitable_region m df =
      Inr (region_report (most_profitable_rows m regions profits))"
    by (rule calculate_most_profitable_region_rows [OF assms])
qed (rule most_profitable_rows_sorted most_profitable_rows_distinct most_profitable_rows_set)+

theorem most_profitable_region_spec_witness:
  "calculate_most_profitable_region exact_machine loss_orders =
     Inr (region_report [(''East'', - 10), (''South'', - 10)]) \<and>
   calculate_most_profitable_region floor_machine loss_orders =
     Inr (region_report [(''East'', - 10), (''South'', - 10)]) \<and>
   (\<exists>rows. calculate_most_profitable_region exact_machine loss_orders = Inr (region_report rows) \<and>
      sorted (map fst rows) \<and> distinct (map fst rows))"
proof -
  have r: "getitem loss_orders ''Region'' =
      Inr (StrCol [Some ''East'', Some ''East'', Some ''West'', Some ''West'', Some ''South''])"
    by (simp add: getitem_def loss_orders_def)
  have p: "getitem loss_orders ''Profit'' =
      Inr (NumCol [Some (- 4), Some (- 6), Some (- 20), Some (- 5), Some (- 10)])"
    by (simp add: getitem_def loss_orders_def)
  have v: "calculate_most_profitable_region exact_machine loss_orders =
      Inr (region_report [(''East'', - 10), (''South'', - 10)])"
    "calculate_most_profitable_region floor_machine loss_orders =
      Inr (region_report [(''East'', - 10), (''South'', - 10)])"
    by code_simp+
  from most_profitable_region_spec [OF r p, of exact_machine] v show ?thesis
    by blast
qed
section \<open>The most common ship method\<close>

lemma pair_count_unobserved: "(a, b) \<notin> observed_pairs ks1 ks2 \<Longrightarrow> pair_count ks1 ks2 a b = 0"
  by (auto simp: pair_count_def observed_pairs_def filter_empty_conv)

lemma groupby_size_set_rows:
  "set (groupby_size ks1 ks2) =
     {(a, b, pair_count ks1 ks2 a b) | a b. (a, b) \<in> observed_pairs ks1 ks2}"
  by (auto simp: groupby_size_def Let_def count_key_pairs set_key_pairs [symmetric])

lemma groupby_size_rows_distinct: "distinct (groupby_size ks1 ks2)"
  using groupby_size_distinct [of ks1 ks2] by (simp add: distinct_map)

lemma most_common_of_filter:
  "most_common_of counts c =
     filter (\<lambda>r. Some (row_count r) =
                 series_max (map row_count (filter (\<lambda>r. fst r = c) counts)))
            (filter (\<lambda>r. fst r = c) counts)"
proof -
  have 1: "(\<lambda>(c', m, n). c' = c) = (\<lambda>r :: string \<times> string \<times> nat. fst r = c)"
    by (auto simp: fun_eq_iff)
  have 2: "(\<lambda>(c', m, n). n) = (row_count :: string \<times> string \<times> nat \<Rightarrow> nat)"
    by (auto simp: fun_eq_iff row_count_def)
  have 3: "(\<lambda>(c', m, n). Some n = k) = (\<lambda>r :: string \<times> string \<times> nat. Some (row_count r) = k)"
    for k by (auto simp: fun_eq_iff row_count_def)
  show ?thesis
    unfolding most_common_of_def Let_def 1 2 3 ..
qed

lemma most_common_of_set:
  "set (most_common_of counts c) =
     {r \<in> set counts. fst r = c \<and>
        (\<forall>r' \<in> set counts. fst r' = c \<longrightarrow> row_count r' \<le> row_count r)}"
  unfolding most_common_of_filter set_filter_max by auto

lemma most_common_of_distinct: "distinct counts \<Longrightarrow> distinct (most_common_of counts c)"
  unfolding most_common_of_filter by simp

lemma distinct_concat_groups:
  assumes "distinct cs" and "\<And>c. distinct (f c)" and "\<And>c r. r \<in> set (f c) \<Longrightarrow> g r = c"
  shows "distinct (concat (map f cs))"
  using assms(1)
proof (induction cs)
  case Nil
  then show ?case by simp
next
  case (Cons c cs)
  have "set (f c) \<inter> set (concat (map f cs)) = {}"
  proof (rule ccontr)
    assume "set (f c) \<inter> set (concat (map f cs)) \<noteq> {}"
    then obtain r c' where "r \<in> set (f c)" and "c' \<in> set cs" and "r \<in> set (f c')"
      by auto
    then have "c = c'" using assms(3) by metis
    with \<open>c' \<in> set cs\<close> Cons.prems show False by simp
  qed
  with Cons assms(2) show ?case by simp
qed

lemma most_common_rows_sort:
  "most_common_rows categories modes =
     sort_key row_key
       (concat (map (most_common_of (groupby_size categories modes))
                    (sort (remdups (map fst (groupby_size categories modes))))))"
proof -
  have k: "(\<lambda>(c, m, n). (c, m)) = (row_key :: string \<times> string \<times> nat \<Rightarrow> string \<times> string)"
    by (auto simp: fun_eq_iff row_key_def)
  show ?thesis
    unfolding most_common_rows_def Let_def k by simp
qed

lemma most_common_rows_set:
  "set (most_common_rows categories modes) =
     {r \<in> set (groupby_size categories modes).
        \<forall>r' \<in> set (groupby_size categories modes).
          fst r' = fst r \<longrightarrow> row_count r' \<le> row_count r}"
  unfolding most_common_rows_sort by (auto simp: most_common_of_set)

lemma most_common_rows_sorted: "sorted (map row_key (most_common_rows categories modes))"
  unfolding most_common_rows_sort by (rule sorted_sort_key)

lemma most_common_rows_distinct: "distinct (map row_key (most_common_rows categories modes))"
proof -
  let ?counts = "groupby_size categories modes"
  have d: "distinct (most_common_rows categories modes)"
    unfolding most_common_rows_sort distinct_sort
    by (rule distinct_concat_groups [where g = fst])
      (simp_all add: most_common_of_distinct groupby_size_rows_distinct most_common_of_set)
  have "inj_on row_key (set ?counts)"
    using groupby_size_distinct [of categories modes] by (simp add: distinct_map)
  moreover have "set (most_common_rows categories modes) \<subseteq> set ?counts"
    by (auto simp: most_common_rows_set)
  ultimately have "inj_on row_key (set (most_common_rows categories modes))"
    by (rule inj_on_subset)
  with d show ?thesis by (simp add: distinct_map)
qed

lemma most_common_rows_spec:
  "set (most_common_rows categories modes) =
     {(c, m, pair_count categories modes c m) | c m.
        (c, m) \<in> observed_pairs categories modes \<and>
        (\<forall>m'. pair_count categories modes c m' \<le> pair_count categories modes c m)}"
  (is "?L = ?R")
proof (rule set_eqI)
  fix r :: "string \<times> string \<times> nat"
  obtain c m n where r: "r = (c, m, n)" by (cases r)
  have "r \<in> ?L \<longleftrightarrow>
      (c, m) \<in> observed_pairs categories modes \<and> n = pair_count categories modes c m \<and>
      (\<forall>m'. (c, m') \<in> observed_pairs categories modes \<longrightarrow>
         pair_count categories modes c m' \<le> n)"
    unfolding most_common_rows_set groupby_size_set_rows r
    by (auto simp: row_count_def)
  also have "\<dots> \<longleftrightarrow> r \<in> ?R"
    unfolding r using pair_count_unobserved [of c _ categories modes]
    by (auto; metis le0)
  finally show "r \<in> ?L \<longleftrightarrow> r \<in> ?R" .
qed


lemma most_common_rows_categories:
  "fst ` set (most_common_rows categories modes) = fst ` observed_pairs categories modes"
proof
  show "fst ` set (most_common_rows categories modes) \<subseteq> fst ` observed_pairs categories modes"
    unfolding most_common_rows_spec by force
next
  show "fst ` observed_pairs categories modes \<subseteq> fst ` set (most_common_rows categories modes)"
  proof
    fix c assume "c \<in> fst ` observed_pairs categories modes"
    then obtain m where m: "(c, m) \<in> observed_pairs categories modes" by auto
    let ?S = "{m'. (c, m') \<in> observed_pairs categories modes}"
    let ?P = "pair_count categories modes c ` ?S"
    have "?S \<subseteq> snd ` set (key_pairs categories modes)"
      by (force simp: set_key_pairs)
    then have fin: "finite ?P" by (blast intro: finite_imageI finite_subset finite_set)
    have ne: "?P \<noteq> {}" using m by blast
    from Max_in [OF fin ne] obtain best where best: "(c, best) \<in> observed_pairs categories modes"
      and top: "pair_count categories modes c best = Max ?P" by auto
    have "pair_count categories modes c m' \<le> pair_count categories modes c best" for m'
    proof (cases "(c, m') \<in> observed_pairs categories modes")
      case True
      then have "pair_count categories modes c m' \<in> ?P" by blast
      from Max_ge [OF fin this] top show ?thesis by simp
    next
      case False
      then show ?thesis by (simp add: pair_count_unobserved)
    qed
    with best have "(c, best, pair_count categories modes c best) \<in>
        set (most_common_rows categories modes)"
      unfolding most_common_rows_spec by blast
    then show "c \<in> fst ` set (most_common_rows categories modes)" by force
  qed
qed

lemma most_common_rows_empty: "most_common_rows [] [] = []"
  by (simp add: most_common_rows_def groupby_size_empty)

lemma find_most_common_ship_method_rows:
  assumes "wf_df df" and "getitem df ''Category'' = Inr (StrCol categories)"
    and "getitem df ''Ship Mode'' = Inr (StrCol modes)"
  shows "find_most_common_ship_method df = Inr (ship_report (most_common_rows categories modes))"
proof (cases "df_empty df")
  case True
  have "df \<noteq> []" using assms(2) by (auto simp: getitem_def)
  with True have "nrows df = 0" by (simp add: df_empty_def)
  with getitem_col_len [OF assms(1,2)] getitem_col_len [OF assms(1,3)]
  have "categories = []" and "modes = []" by simp_all
  with True show ?thesis
    by (simp add: find_most_common_ship_method_def most_common_rows_empty)
next
  case False
  then show ?thesis
    by (simp add: find_most_common_ship_method_def assms(2,3) bind_err_def)
qed

text \<open>
  C3. For a well-formed frame with text columns Category and Ship Mode the call
  succeeds, and the rows of its report are exactly the triples of a category, a ship
  mode used in it and the number of orders with that pair, for which no ship mode has
  more orders in that category: every tied mode is there and no mode with fewer orders
  is. Every category that occurs has a row. The rows are in strictly ascending order of
  (category, ship mode).
\<close>

theorem most_common_ship_method_spec:
  assumes "wf_df df" and "getitem df ''Category'' = Inr (StrCol categories)"
    and "getitem df ''Ship Mode'' = Inr (StrCol modes)"
  shows "\<exists>rows. find_most_common_ship_method df = Inr (ship_report rows) \<and>
           sorted (map row_key rows) \<and> distinct (map row_key rows) \<and>
           set rows =
             {(c, m, pair_count categories modes c m) | c m.
                (c, m) \<in> observed_pairs categories modes \<and>
                (\<forall>m'. pair_count categories modes c m' \<le> pair_count categories modes c m)} \<and>
           fst ` set rows = fst ` observed_pairs categories modes"
proof (intro exI conjI)
  show "find_most_common_ship_method df =
      Inr (ship_report (most_common_rows categories modes))"
    by (rule find_most_common_ship_method_rows [OF assms])
qed (rule most_common_rows_sorted most_common_rows_distinct most_common_rows_spec
      most_common_rows_categories)+

theorem most_common_ship_method_spec_witness:
  "find_most_common_ship_method tie_orders =
     Inr (ship_report [(''Furniture'', ''First Class'', 2), (''Furniture'', ''Standard Class'', 2),
                       (''Technology'', ''Ground'', 1)]) \<and>
   find_most_common_ship_method example_orders =
     Inr (ship_report [(''Furniture'', ''First Class'', 1), (''Furniture'', ''Same Day'', 1),
                       (''Furniture'', ''Standard Class'', 1),
                       (''Office Supplies'', ''Standard Class'', 1)]) \<and>
   (\<exists>rows. find_most_common_ship_method tie_orders = Inr (ship_report rows) \<and>
      sorted (map row_key rows) \<and> distinct (map row_key rows))"
proof -
  have e: "find_most_common_ship_method example_orders =
      Inr (ship_report [(''Furniture'', ''First Class'', 1), (''Furniture'', ''Same Day'', 1),
                        (''Furniture'', ''Standard Class'', 1),
                        (''Office Supplies'', ''Standard Class'', 1)])"
    by code_simp
  have w: "wf_df tie_orders"
    by (simp add: tie_orders_def wf_df_def nrows_def)
  have c: "getitem tie_orders ''Category'' =
      Inr (StrCol [Some ''Furniture'', Some ''Furniture'', Some ''Furniture'',
                   Some ''Furniture'', Some ''Furniture'', Some ''Technology''])"
    by (simp add: getitem_def tie_orders_def)
  have m: "getitem tie_orders ''Ship Mode'' =
      Inr (StrCol [Some ''Standard Class'', Some ''Standard Class'', Some ''First Class'',
                   Some ''First Class'', Some ''Same Day'', Some ''Ground''])"
    by (simp add: getitem_def tie_orders_def)
  have v: "find_most_common_ship_method tie_orders =
      Inr (ship_report [(''Furniture'', ''First Class'', 2), (''Furniture'', ''Standard Class'', 2),
                        (''Technology'', ''Ground'', 1)])"
    by code_simp
  from most_common_ship_method_spec [OF w c m] v e show ?thesis
    by blast
qed

section \<open>Rows with a missing key\<close>

lemma getitem_select_rows:
  "getitem (select_rows keep df) name =
     (case getitem df name of Inl e \<Rightarrow> Inl e | Inr c \<Rightarrow> Inr (select_col keep c))"
proof -
  have "map_of (select_rows keep df) name = map_option (select_col keep) (map_of df name)"
    unfolding select_rows_def by (induction df) auto
  then show ?thesis
    by (simp add: getitem_def split: option.splits)
qed

lemma length_select_cong:
  "length xs = length ys \<Longrightarrow> length (select keep xs) = length (select keep ys)"
proof (induction keep arbitrary: xs ys)
  case Nil
  then show ?case by simp
next
  case (Cons b bs)
  then show ?case by (cases xs; cases ys) auto
qed

lemma col_len_select_cong:
  "col_len c = col_len c' \<Longrightarrow> col_len (select_col keep c) = col_len (select_col keep c')"
  by (cases c; cases c') (auto intro: length_select_cong)

lemma wf_select_rows:
  assumes "wf_df df"
  shows "wf_df (select_rows keep df)"
proof (cases df)
  case Nil
  then show ?thesis by (simp add: select_rows_def wf_df_def nrows_def)
next
  case (Cons p rest)
  obtain n0 c0 where p: "p = (n0, c0)" by (cases p)
  have names: "map fst (select_rows keep df) = map fst df"
    by (simp add: select_rows_def comp_def case_prod_beta)
  have n: "nrows (select_rows keep df) = col_len (select_col keep c0)"
    by (simp add: Cons p select_rows_def nrows_def)
  have "col_len (select_col keep c) = col_len (select_col keep c0)" if "(name, c) \<in> set df"
    for name c
  proof -
    from assms that have "col_len c = nrows df" by (auto simp: wf_df_def list_all_iff)
    also have "nrows df = col_len c0" by (simp add: Cons p nrows_def)
    finally show ?thesis by (rule col_len_select_cong)
  qed
  then have "list_all (\<lambda>(name, c). col_len c = nrows (select_rows keep df))
      (select_rows keep df)"
    unfolding n by (auto simp: list_all_iff select_rows_def)
  with assms names show ?thesis by (simp add: wf_df_def)
qed

lemma key_pairs_select:
  "key_pairs (select (both_present ks1 ks2) ks1) (select (both_present ks1 ks2) ks2) =
     key_pairs ks1 ks2"
  by (induction ks1 ks2 rule: list_induct2')
    (auto simp: key_pairs_def both_present_def split: option.splits)

lemma groupby_size_select:
  "groupby_size (select (both_present ks1 ks2) ks1) (select (both_present ks1 ks2) ks2) =
     groupby_size ks1 ks2"
  by (simp add: groupby_size_def key_pairs_select)

lemma most_common_rows_select:
  "most_common_rows (select (both_present ks1 ks2) ks1) (select (both_present ks1 ks2) ks2) =
     most_common_rows ks1 ks2"
  by (simp add: most_common_rows_def groupby_size_select)

lemma present_select: "present (select (is_present ks) ks) = present ks"
  by (induction ks) (auto simp: present_def is_present_def split: option.splits)

lemma region_values_select:
  "region_values (select (is_present ks) ks) (select (is_present ks) ps) k =
     region_values ks ps k"
  by (induction ks ps rule: list_induct2')
    (auto simp: region_values_def is_present_def split: option.splits)

lemma group_sum_select:
  "group_sum m (select (is_present ks) ks) (select (is_present ks) ps) k = group_sum m ks ps k"
  by (simp add: group_sum_values region_values_select)

lemma most_profitable_rows_select:
  "most_profitable_rows m (select (is_present ks) ks) (select (is_present ks) ps) =
     most_profitable_rows m ks ps"
  by (simp add: most_profitable_rows_def groupby_sum_def group_keys_def present_select
      group_sum_select)


lemma find_number_of_order_per_category_rows:
  assumes "getitem df ''Category'' = Inr (StrCol categories)"
    and "getitem df ''Sub Category'' = Inr (StrCol subs)"
  shows "find_number_of_order_per_category df =
           Inr (category_report (groupby_size categories subs))"
  by (simp add: find_number_of_order_per_category_def assms bind_err_def)

text \<open>
  C10. In each of the three aggregations the rows whose grouping key is missing count
  for nothing: the report of the frame is the report of the frame without those rows.
  The call does not fail on them, and the keys of the report are region names, or
  pairs of names, never a missing value. For the region report the rows left out are
  those without a region; for the two count reports, those in which either of the two
  keys is missing.
\<close>

theorem null_keys_excluded:
  assumes "wf_df df"
  shows "(getitem df ''Region'' = Inr (StrCol regions) \<and>
          getitem df ''Profit'' = Inr (NumCol profits) \<longrightarrow>
            calculate_most_profitable_region m (select_rows (is_present regions) df) =
              calculate_most_profitable_region m df \<and>
            (\<exists>rows. calculate_most_profitable_region m df = Inr (region_report rows))) \<and>
         (getitem df ''Category'' = Inr (StrCol categories) \<and>
          getitem df ''Ship Mode'' = Inr (StrCol modes) \<longrightarrow>
            find_most_common_ship_method (select_rows (both_present categories modes) df) =
              find_most_common_ship_method df \<and>
            (\<exists>rows. find_most_common_ship_method df = Inr (ship_report rows))) \<and>
         (getitem df ''Category'' = Inr (StrCol categories) \<and>
          getitem df ''Sub Category'' = Inr (StrCol subs) \<longrightarrow>
            find_number_of_order_per_category (select_rows (both_present categories subs) df) =
              find_number_of_order_per_category df \<and>
            (\<exists>rows. find_number_of_order_per_category df = Inr (category_report rows)))"
proof (intro conjI impI)
  assume a: "getitem df ''Region'' = Inr (StrCol regions) \<and>
    getitem df ''Profit'' = Inr (NumCol profits)"
  let ?df' = "select_rows (is_present regions) df"
  have "calculate_most_profitable_region m ?df' =
      Inr (region_report (most_profitable_rows m (select (is_present regions) regions)
        (select (is_present regions) profits)))"
    by (rule calculate_most_profitable_region_rows) (simp_all add: getitem_select_rows a)
  then show "calculate_most_profitable_region m ?df' = calculate_most_profitable_region m df"
    using a by (simp add: most_profitable_rows_select calculate_most_profitable_region_rows)
  show "\<exists>rows. calculate_most_profitable_region m df = Inr (region_report rows)"
    using a by (blast intro: calculate_most_profitable_region_rows)
next
  assume a: "getitem df ''Category'' = Inr (StrCol categories) \<and>
    getitem df ''Ship Mode'' = Inr (StrCol modes)"
  let ?keep = "both_present categories modes"
  have "find_most_common_ship_method (select_rows ?keep df) =
      Inr (ship_report (most_common_rows (select ?keep categories) (select ?keep modes)))"
    by (rule find_most_common_ship_method_rows [OF wf_select_rows [OF assms]])
      (simp_all add: getitem_select_rows a)
  then show "find_most_common_ship_method (select_rows ?keep df) =
      find_most_common_ship_method df"
    using a by (simp add: most_common_rows_select find_most_common_ship_method_rows [OF assms])
  show "\<exists>rows. find_most_common_ship_method df = Inr (ship_report rows)"
    using a by (blast intro: find_most_common_ship_method_rows [OF assms])
next
  assume a: "getitem df ''Category'' = Inr (StrCol categories) \<and>
    getitem df ''Sub Category'' = Inr (StrCol subs)"
  let ?keep = "both_present categories subs"
  have "find_number_of_order_per_category (select_rows ?keep df) =
      Inr (category_report (groupby_size (select ?keep categories) (select ?keep subs)))"
    by (rule find_number_of_order_per_category_rows) (simp_all add: getitem_select_rows a)
  then show "find_number_of_order_per_category (select_rows ?keep df) =
      find_number_of_order_per_category df"
    using a by (simp add: groupby_size_select find_number_of_order_per_category_rows)
  show "\<exists>rows. find_number_of_order_per_category df = Inr (category_report rows)"
    using a by (blast intro: find_number_of_order_per_category_rows)
qed

lemma gappy_orders_reports:
  "calculate_most_profitable_region exact_machine gappy_orders =
     Inr (region_report [(''West'', 7)])"
  "find_most_common_ship_method gappy_orders =
     Inr (ship_report [(''Furniture'', ''First Class'', 1), (''Technology'', ''Same Day'', 1)])"
  "find_number_of_order_per_category gappy_orders =
     Inr (category_report [(''Furniture'', ''Chairs'', 2), (''Technology'', ''Phones'', 1)])"
  by code_simp+

theorem null_keys_excluded_witness:
  "calculate_most_profitable_region exact_machine
     (select_rows [True, False, True, True] gappy_orders) =
       Inr (region_report [(''West'', 7)]) \<and>
   find_most_common_ship_method
     (select_rows [True, False, False, True] gappy_orders) =
       Inr (ship_report [(''Furniture'', ''First Class'', 1), (''Technology'', ''Same Day'', 1)]) \<and>
   find_number_of_order_per_category
     (select_rows [True, True, False, True] gappy_orders) =
       Inr (category_report [(''Furniture'', ''Chairs'', 2), (''Technology'', ''Phones'', 1)])"
proof -
  have w: "wf_df gappy_orders"
    by (simp add: gappy_orders_def wf_df_def nrows_def)
  have g: "getitem gappy_orders ''Region'' =
      Inr (StrCol [Some ''East'', None, Some ''West'', Some ''East''])"
    "getitem gappy_orders ''Profit'' = Inr (NumCol [Some 5, Some 100, Some 7, Some 1])"
    "getitem gappy_orders ''Category'' =
      Inr (StrCol [Some ''Furniture'', Some ''Furniture'', None, Some ''Technology''])"
    "getitem gappy_orders ''Ship Mode'' =
      Inr (StrCol [Some ''First Class'', None, Some ''Same Day'', Some ''Same Day''])"
    "getitem gappy_orders ''Sub Category'' =
      Inr (StrCol [Some ''Chairs'', Some ''Chairs'', Some ''Labels'', Some ''Phones''])"
    by (simp_all add: getitem_def gappy_orders_def)
  from null_keys_excluded [where df = gappy_orders and m = exact_machine
      and regions = "[Some ''East'', None, Some ''West'', Some ''East'']"
      and profits = "[Some 5, Some 100, Some 7, Some 1]"
      and categories = "[Some ''Furniture'', Some ''Furniture'', None, Some ''Technology'']"
      and modes = "[Some ''First Class'', None, Some ''Same Day'', Some ''Same Day'']"
      and subs = "[Some ''Chairs'', Some ''Chairs'', Some ''Labels'', Some ''Phones'']",
      OF w]
  show ?thesis
    by (simp add: g gappy_orders_reports is_present_def both_present_def)
qed
end
